theory Spec2Isabelle
  imports Main "HOL-Library.Sublist" "HOL-Library.Multiset"
begin

section \<open>Python strings\<close>

text \<open>
  A Python \<open>str\<close> is modelled as a \<open>string\<close>, one \<open>char\<close> per code point, for texts whose
  code points are below 256. On that range \<open>str.lower\<close> maps a character to one character:
  the ASCII capitals and the Latin-1 capitals (U+00C0 to U+00DE without the
  multiplication sign U+00D7) move up by 32, every other character stays.
\<close>

definition lower_char :: "char \<Rightarrow> char" where
  "lower_char c =
     (let n = (of_char c :: nat)
      in if (65 \<le> n \<and> n \<le> 90) \<or> (192 \<le> n \<and> n \<le> 222 \<and> n \<noteq> 215)
         then char_of (n + 32) else c)"

definition lower :: "string \<Rightarrow> string" where
  "lower s = map lower_char s"

text \<open>\<open>kw in s\<close> on two strings: \<open>kw\<close> occurs in \<open>s\<close> as a contiguous substring.\<close>

definition py_in :: "string \<Rightarrow> string \<Rightarrow> bool" where
  "py_in kw s = sublist kw s"

text \<open>\<open>sep.join(xs)\<close>.\<close>

fun join :: "string \<Rightarrow> string list \<Rightarrow> string" where
  "join sep [] = []"
| "join sep [x] = x"
| "join sep (x # y # ys) = x @ sep @ join sep (y # ys)"

text \<open>\<open>str(n)\<close> for an integer: the decimal digits, with a minus sign below zero.\<close>

definition digit_char :: "nat \<Rightarrow> char" where
  "digit_char d = char_of (48 + d)"

fun str_nat :: "nat \<Rightarrow> string" where
  "str_nat n = (if n < 10 then [digit_char n] else str_nat (n div 10) @ [digit_char (n mod 10)])"

definition str_int :: "int \<Rightarrow> string" where
  "str_int i = (if i < 0 then CHR ''-'' # str_nat (nat (- i)) else str_nat (nat i))"

section \<open>utils.py\<close>

subsection \<open>The static tables\<close>

definition CHECKLIST :: "(string \<times> string list) list" where
  "CHECKLIST =
   [(''Company Incorporation'',
       [''Articles of Association'', ''Memorandum of Association'', ''Board Resolution'',
        ''Shareholder Resolution'', ''Incorporation Application Form'', ''UBO Declaration Form'',
        ''Register of Members and Directors'', ''Change of Registered Address Notice'']),
    (''Employment & HR'',
       [''Standard Employment Contract'', ''Employee Handbook'', ''Offer Letter'']),
    (''Licensing'',
       [''Licensing Application Form'', ''Supporting Documents for License'']),
    (''Compliance & Risk'',
       [''Data Protection Policy'', ''Compliance Policy'', ''Risk Assessment'']),
    (''Commercial Agreements'',
       [''NDA'', ''Consultancy Agreement'', ''Service Agreement'', ''Sale/Purchase Agreement''])]"

definition DOC_TYPE_KEYWORDS :: "(string \<times> string list) list" where
  "DOC_TYPE_KEYWORDS =
   [(''Articles of Association'', [''articles of association'', ''aoa'', ''article of association'']),
    (''Memorandum of Association'', [''memorandum of association'', ''moa'', ''memorandum'']),
    (''Board Resolution'', [''board resolution'', ''resolution of the board'']),
    (''Shareholder Resolution'',
       [''shareholder resolution'', ''resolution of the shareholders'',
        ''shareholders'' @ [CHR 0x27] @ '' resolution'']),
    (''Incorporation Application Form'',
       [''incorporation application'', ''application for incorporation'', ''form ra'']),
    (''UBO Declaration Form'', [''ubo declaration'', ''ultimate beneficial owner'', ''ubo form'']),
    (''Register of Members and Directors'',
       [''register of members'', ''register of directors'', ''register of members and directors'']),
    (''Change of Registered Address Notice'',
       [''change of registered address'', ''registered address notice'']),
    (''Standard Employment Contract'',
       [''employment contract'', ''standard employment contract'', ''employee contract'']),
    (''Offer Letter'', [''offer letter'', ''employment offer'']),
    (''NDA'', [''non-disclosure agreement'', ''nda'', ''confidentiality agreement'']),
    (''Consultancy Agreement'', [''consultancy agreement'', ''consultant agreement'']),
    (''Service Agreement'', [''service agreement'', ''services agreement'']),
    (''Data Protection Policy'', [''data protection policy'', ''dpr'', ''data protection'']),
    (''Compliance Policy'', [''compliance policy'', ''compliance manual'']),
    (''Licensing Application Form'',
       [''licensing application'', ''license application'', ''application for license''])]"

subsection \<open>detect_doc_type_from_text\<close>

text \<open>
  The loop over \<open>DOC_TYPE_KEYWORDS.items()\<close> adds a document name to the set \<open>matches\<close> as
  soon as one of its keywords occurs in the lowered text. The function returns
  \<open>list(matches)\<close>, whose order Python does not fix; the model returns the set.
\<close>

definition detect_doc_type_from_text :: "string \<Rightarrow> string set" where
  "detect_doc_type_from_text text =
     (let t = lower text
      in set (map fst (filter (\<lambda>(doc_name, kws). list_ex (\<lambda>kw. py_in kw t) kws)
                              DOC_TYPE_KEYWORDS)))"

subsection \<open>checklist_comparison_for_process\<close>

text \<open>\<open>CHECKLIST.get(process, [])\<close>.\<close>

definition checklist_get :: "string \<Rightarrow> string list" where
  "checklist_get process = (case map_of CHECKLIST process of None \<Rightarrow> [] | Some r \<Rightarrow> r)"

text \<open>
  \<open>list(set(required) - set(uploaded_types))\<close>: the elements of the difference, each once,
  in the iteration order of a Python set. That order comes from the hash table and is
  not fixed by the language, so it is the parameter \<open>order\<close>, applied to the elements
  taken in the order of \<open>required\<close>; the theorems ask of it only that it permutes its
  argument (\<open>set_order\<close>).
\<close>

definition set_order :: "(string list \<Rightarrow> string list) \<Rightarrow> bool" where
  "set_order order = (\<forall>xs. mset (order xs) = mset xs)"

definition set_difference_list ::
  "(string list \<Rightarrow> string list) \<Rightarrow> string list \<Rightarrow> string list \<Rightarrow> string list" where
  "set_difference_list order required uploaded_types =
     order (filter (\<lambda>r. r \<notin> set uploaded_types) (remdups required))"

text \<open>The returned tuple \<open>(required, missing, len(uploaded_types), len(required))\<close>.\<close>

definition checklist_comparison_for_process ::
  "(string list \<Rightarrow> string list) \<Rightarrow> string \<Rightarrow> string list
     \<Rightarrow> string list \<times> string list \<times> nat \<times> nat" where
  "checklist_comparison_for_process order process uploaded_types =
     (let required = checklist_get process;
          missing = set_difference_list order required uploaded_types
      in (required, missing, length uploaded_types, length required))"

subsection \<open>build_user_checklist_message\<close>

text \<open>
  The message holds the character U+2019 (a typographic apostrophe), which is above the
  range of \<open>char\<close>; it stands here by its three UTF-8 bytes. Nothing measures or lowers the
  message.
\<close>

definition rsquo :: string where
  "rsquo = [CHR 0xE2, CHR 0x80, CHR 0x99]"

definition process_phrase :: "string \<Rightarrow> string" where
  "process_phrase process =
     (if process = ''Company Incorporation'' then ''incorporate a company in ADGM''
      else ''perform the process: '' @ process)"

definition build_user_checklist_message ::
  "(string list \<Rightarrow> string list) \<Rightarrow> string \<Rightarrow> string list \<Rightarrow> string" where
  "build_user_checklist_message order process uploaded_types =
     (case checklist_comparison_for_process order process uploaded_types of
        (required, missing, uploaded_count, required_count) \<Rightarrow>
          if missing \<noteq> [] then
            (let missing_names = join ([CHR 0x27] @ '', '' @ [CHR 0x27]) missing
             in ''It appears that you'' @ rsquo @ ''re trying to '' @ process_phrase process @ ''. ''
                @ ''Based on our reference list, you have uploaded '' @ str_nat uploaded_count
                @ '' out of '' @ str_nat required_count @ '' required documents. ''
                @ ''The missing document(s) appears to be: '' @ [CHR 0x27] @ missing_names
                @ [CHR 0x27] @ ''.'')
          else
            ''It appears that you'' @ rsquo @ ''re trying to '' @ process_phrase process @ ''. ''
            @ ''All required documents ('' @ str_nat required_count @ '') appear to be uploaded.'')"

section \<open>checker.py\<close>

subsection \<open>Whitespace, word characters, strip\<close>

text \<open>
  \<open>str.isspace\<close>, which also decides what \<open>str.strip()\<close> removes and what \<open>\s\<close> matches in a
  pattern on \<open>str\<close>: below 256 these are U+0009 to U+000D, U+001C to U+0020, U+0085 and
  U+00A0.
\<close>

definition is_space :: "char \<Rightarrow> bool" where
  "is_space c =
     (let n = (of_char c :: nat)
      in (9 \<le> n \<and> n \<le> 13) \<or> (28 \<le> n \<and> n \<le> 32) \<or> n = 133 \<or> n = 160)"

definition strip :: "string \<Rightarrow> string" where
  "strip s = rev (dropWhile is_space (rev (dropWhile is_space s)))"

text \<open>
  \<open>\w\<close> in a pattern on \<open>str\<close>: the alphanumeric characters and the underscore. Below 256
  these are the ASCII letters and digits, the underscore, U+00AA, U+00B2, U+00B3, U+00B5,
  U+00B9, U+00BA, U+00BC to U+00BE, and U+00C0 to U+00FF without U+00D7 and U+00F7.
\<close>

definition is_word_char :: "char \<Rightarrow> bool" where
  "is_word_char c =
     (let n = (of_char c :: nat)
      in (48 \<le> n \<and> n \<le> 57) \<or> (65 \<le> n \<and> n \<le> 90) \<or> (97 \<le> n \<and> n \<le> 122) \<or> n = 95
         \<or> n = 170 \<or> n = 178 \<or> n = 179 \<or> n = 181 \<or> n = 185 \<or> n = 186
         \<or> (188 \<le> n \<and> n \<le> 190) \<or> (192 \<le> n \<and> n \<noteq> 215 \<and> n \<noteq> 247))"

text \<open>
  \<open>\b\<close> matches between two positions when exactly one of the neighbouring characters is
  a word character; the two ends of the text count as non-word.
\<close>

definition word_boundary :: "char option \<Rightarrow> char option \<Rightarrow> bool" where
  "word_boundary prev nxt =
     ((case prev of None \<Rightarrow> False | Some c \<Rightarrow> is_word_char c)
      \<noteq> (case nxt of None \<Rightarrow> False | Some c \<Rightarrow> is_word_char c))"

definition hd_opt :: "string \<Rightarrow> char option" where
  "hd_opt s = (case s of [] \<Rightarrow> None | c # _ \<Rightarrow> Some c)"

text \<open>
  \<open>alt\<close> matches at the head of \<open>s\<close>, with \<open>\b\<close> before it (\<open>prev\<close> is the character before
  \<open>s\<close>) and \<open>\b\<close> after it.
\<close>

definition bounded_match_here :: "char option \<Rightarrow> string \<Rightarrow> string \<Rightarrow> bool" where
  "bounded_match_here prev s alt =
     (prefix alt s
      \<and> word_boundary prev (hd_opt s)
      \<and> word_boundary (if alt = [] then prev else Some (last alt)) (hd_opt (drop (length alt) s)))"

text \<open>
  \<open>re.search(r'\b(a1|a2|...)\b', s)\<close> finds a match: at some position one of the
  alternatives matches between two word boundaries.
\<close>

fun search_word_bounded :: "string list \<Rightarrow> char option \<Rightarrow> string \<Rightarrow> bool" where
  "search_word_bounded alts prev [] = list_ex (bounded_match_here prev []) alts"
| "search_word_bounded alts prev (c # cs) =
     (list_ex (bounded_match_here prev (c # cs)) alts \<or> search_word_bounded alts (Some c) cs)"

text \<open>\<open>re.search\<close> for a literal followed by one character of a class, as in \<open>signature:\s\<close>.\<close>

fun search_literal_then :: "string \<Rightarrow> (char \<Rightarrow> bool) \<Rightarrow> string \<Rightarrow> bool" where
  "search_literal_then lit P [] = False"
| "search_literal_then lit P (c # cs) =
     ((prefix lit (c # cs) \<and> (case drop (length lit) (c # cs) of [] \<Rightarrow> False | d # _ \<Rightarrow> P d))
      \<or> search_literal_then lit P cs)"

subsection \<open>Python values\<close>

text \<open>
  The values \<open>json.loads\<close> returns: \<open>None\<close>, \<open>bool\<close>, \<open>int\<close>, \<open>float\<close> (kept as the
  text of the number, since nothing here computes with it), \<open>str\<close>, \<open>list\<close> and \<open>dict\<close>. A
  \<open>dict\<close> is an association list in insertion order with each key once.
\<close>

datatype json =
    JNull
  | JBool bool
  | JInt int
  | JFloat string
  | JStr string
  | JArr "json list"
  | JObj "(string \<times> json) list"

type_synonym pydict = "(string \<times> json) list"

datatype exn = TypeError | KeyError | JSONDecodeError | TimeoutError | OtherError string

text \<open>\<open>d.setdefault(k, v)\<close>: a new key goes to the end, a present key keeps its value.\<close>

definition setdefault :: "string \<Rightarrow> json \<Rightarrow> pydict \<Rightarrow> pydict" where
  "setdefault k v d = (if k \<in> fst ` set d then d else d @ [(k, v)])"

text \<open>\<open>k in d\<close> and \<open>d.get(k)\<close> (\<open>None\<close> for a missing key).\<close>

definition has_key :: "string \<Rightarrow> pydict \<Rightarrow> bool" where
  "has_key k d = (k \<in> fst ` set d)"

definition dict_get :: "pydict \<Rightarrow> string \<Rightarrow> json" where
  "dict_get d k = (case map_of d k of None \<Rightarrow> JNull | Some v \<Rightarrow> v)"

text \<open>\<open>d[k]\<close>: \<open>KeyError\<close> for a missing key.\<close>

definition dict_index :: "pydict \<Rightarrow> string \<Rightarrow> exn + json" where
  "dict_index d k = (case map_of d k of None \<Rightarrow> Inl KeyError | Some v \<Rightarrow> Inr v)"

subsection \<open>_clean_snippet and retrieve_context\<close>

definition clean_snippet :: "string \<Rightarrow> nat \<Rightarrow> string" where
  "clean_snippet s len =
     (let s' = strip s in if length s' > len then take len s' @ ''...'' else s')"

text \<open>
  A retrieved passage, as \<open>rag_loader.py\<close> builds it: \<open>page_content\<close> is a string and
  \<open>metadata\<close> a dict whose values are strings, integers or \<open>None\<close>. An absent or empty
  \<open>metadata\<close> is the empty list (\<open>getattr(d, 'metadata', {}) or {}\<close>).
\<close>

datatype meta_value = MNone | MStr string | MInt int | MBool bool

record document =
  page_content :: string
  metadata :: "(string \<times> meta_value) list"

text \<open>What an f-string prints for a metadata value.\<close>

fun str_meta :: "meta_value \<Rightarrow> string" where
  "str_meta MNone = ''None''"
| "str_meta (MStr s) = s"
| "str_meta (MInt i) = str_int i"
| "str_meta (MBool b) = (if b then ''True'' else ''False'')"

text \<open>
  The vector store is outside the repository. The model keeps what \<open>retrieve_context\<close>
  uses of it: whether it has the attribute \<open>similarity_search_with_relevance_scores\<close>, and
  \<open>similarity_search(query, k=k)\<close>, which returns passages or raises.
\<close>

record vectorstore =
  has_relevance_scores :: bool
  similarity_search :: "string \<Rightarrow> nat \<Rightarrow> exn + document list"

definition newline :: string where
  "newline = [CHR 0x0A]"

definition meta_source :: "(string \<times> meta_value) list \<Rightarrow> meta_value" where
  "meta_source meta =
     (case map_of meta ''source'' of
        Some v \<Rightarrow> v
      | None \<Rightarrow> (case map_of meta ''url'' of Some v \<Rightarrow> v | None \<Rightarrow> MStr ''unknown''))"

definition context_piece :: "document \<Rightarrow> string" where
  "context_piece d =
     ''Source: '' @ str_meta (meta_source (metadata d)) @ newline
       @ clean_snippet (page_content d) 1000"

text \<open>
  Both branches of the \<open>if\<close> on \<open>category_filter\<close> make the same call; an exception of the
  call leaves \<open>docs = []\<close>.
\<close>

definition retrieve_context ::
  "vectorstore \<Rightarrow> string \<Rightarrow> nat \<Rightarrow> string option \<Rightarrow> string" where
  "retrieve_context vs query k category_filter =
     (let searched =
            (if (case category_filter of None \<Rightarrow> False | Some f \<Rightarrow> f \<noteq> [])
                \<and> has_relevance_scores vs
             then similarity_search vs query k
             else similarity_search vs query k);
          docs = (case searched of Inl e \<Rightarrow> [] | Inr ds \<Rightarrow> ds)
      in if docs = [] then []
         else join (newline @ newline) (map context_piece docs))"

subsection \<open>_simple_heuristic_checks\<close>

definition issue_dict :: "int \<Rightarrow> string \<Rightarrow> string \<Rightarrow> string \<Rightarrow> string \<Rightarrow> pydict" where
  "issue_dict paragraph_index issue severity suggestion citation =
     [(''paragraph_index'', JInt paragraph_index), (''issue'', JStr issue),
      (''severity'', JStr severity), (''suggestion'', JStr suggestion),
      (''citation'', JStr citation)]"

definition quote :: "string \<Rightarrow> string" where
  "quote s = [CHR 0x27] @ s @ [CHR 0x27]"

definition jurisdiction_issue :: "int \<Rightarrow> pydict" where
  "jurisdiction_issue paragraph_index =
     issue_dict paragraph_index
       ''Incorrect jurisdiction referenced (mentions UAE federal courts).''
       ''High''
       (''Replace with explicit ADGM jurisdiction clause, e.g. ''
          @ quote ''This agreement is governed by the laws of the Abu Dhabi Global Market (ADGM).'')
       ''ADGM Companies Regulations 2020, Art. 6 (example)''"

definition governing_law_issue :: "int \<Rightarrow> pydict" where
  "governing_law_issue paragraph_index =
     issue_dict paragraph_index
       ''Governing law clause present but does not specify ADGM.''
       ''High''
       ''Modify governing law clause to explicitly reference ADGM jurisdiction.''
       ''ADGM Companies Regulations 2020, Art. 6 (example)''"

definition signature_issue :: "int \<Rightarrow> pydict" where
  "signature_issue paragraph_index =
     issue_dict paragraph_index
       ''Possible missing signature / execution block.''
       ''Medium''
       ''Ensure there is a signature block with printed name, title and date.''
       ''ADGM execution signature guidance (template)''"

definition ambiguous_issue :: "int \<Rightarrow> string \<Rightarrow> pydict" where
  "ambiguous_issue paragraph_index p =
     issue_dict paragraph_index
       (''Ambiguous/non-binding phrase detected: '' @ quote p @ ''.'')
       ''Low''
       (''Consider replacing '' @ quote p @ '' with a precise obligation or timescale.'')
       []"

definition ubo_issue :: "int \<Rightarrow> pydict" where
  "ubo_issue paragraph_index =
     issue_dict paragraph_index
       ''Clause concerns ownership/shareholders but UBO disclosures are not referenced.''
       ''Medium''
       ''Ensure the document includes/links to an UBO declaration form where relevant.''
       ''ADGM registry/UBO guidance (check ADGM docs)''"

definition ambiguous_phrases :: "string list" where
  "ambiguous_phrases =
     [''best efforts'', ''reasonable endeavours'', ''endeavour'',
      ''as soon as reasonably practicable'', ''subject to availability'',
      ''to the extent possible'', ''where possible'']"

definition mentions_uae_courts :: "string \<Rightarrow> bool" where
  "mentions_uae_courts lt =
     search_word_bounded
       [''uae federal courts'', ''federal courts of the uae'', ''uae courts''] None lt"

definition mentions_signature :: "string \<Rightarrow> bool" where
  "mentions_signature lt =
     (py_in ''signature'' lt \<or> py_in ''signed by'' lt
      \<or> search_literal_then ''signature:'' is_space lt
      \<or> py_in ''for and on behalf of'' lt)"

text \<open>
  The five rules in the order of the source, each appending to \<open>issues\<close>. The loop over the
  ambiguous phrases appends for the first phrase found and breaks.
\<close>

definition simple_heuristic_checks :: "string \<Rightarrow> int \<Rightarrow> pydict list" where
  "simple_heuristic_checks clause_text paragraph_index =
     (let lt = lower clause_text
      in (if mentions_uae_courts lt then [jurisdiction_issue paragraph_index] else [])
       @ (if py_in ''governed by'' lt \<and> \<not> py_in ''adgm'' lt
          then [governing_law_issue paragraph_index] else [])
       @ (if \<not> mentions_signature lt
             \<and> length lt > 200
             \<and> list_ex (\<lambda>k. py_in k lt) [''agreement'', ''this agreement'', ''in witness'']
          then [signature_issue paragraph_index] else [])
       @ (case find (\<lambda>p. py_in p lt) ambiguous_phrases of
            None \<Rightarrow> []
          | Some p \<Rightarrow> [ambiguous_issue paragraph_index p])
       @ (if list_ex (\<lambda>k. py_in k lt) [''shareholder'', ''shares'', ''beneficial owner'']
             \<and> \<not> py_in ''ubo'' lt \<and> \<not> py_in ''ultimate beneficial owner'' lt
          then [ubo_issue paragraph_index] else []))"

subsection \<open>json.loads\<close>

text \<open>
  \<open>json.loads\<close> belongs to Python's standard library, not to the repository, and
  \<open>_safe_parse_json\<close> below takes the decoder as a parameter: the general theorems hold
  for every decoder. \<open>json_loads\<close> is a decoder to run the program on concrete texts. It
  follows the library's scanner: a value between optional whitespace (space, tab, line
  feed, carriage return) and nothing after it; strings with the escapes of JSON, no raw
  control character inside; integers and, as their text, numbers with a fraction or an
  exponent; the literals \<open>null\<close>, \<open>true\<close>, \<open>false\<close>, \<open>NaN\<close>, \<open>Infinity\<close>, \<open>-Infinity\<close>; no
  trailing comma; a repeated key keeps its first place and its last value. The library's
  limits on nesting depth and on the digits of an integer are not modelled, and a
  \<open>\uXXXX\<close> escape of a code point above 255, which is outside the modelled texts, is
  rejected.
\<close>

datatype token = TLBracket | TRBracket | TLBrace | TRBrace | TComma | TColon | TValue json

definition is_digit :: "char \<Rightarrow> bool" where
  "is_digit c = (let n = (of_char c :: nat) in 48 \<le> n \<and> n \<le> 57)"

definition digit_val :: "char \<Rightarrow> nat" where
  "digit_val c = of_char c - 48"

definition nat_of_digits :: "string \<Rightarrow> nat" where
  "nat_of_digits ds = foldl (\<lambda>acc d. 10 * acc + digit_val d) 0 ds"

definition hex_val :: "char \<Rightarrow> nat option" where
  "hex_val c =
     (let n = (of_char c :: nat)
      in if 48 \<le> n \<and> n \<le> 57 then Some (n - 48)
         else if 65 \<le> n \<and> n \<le> 70 then Some (n - 55)
         else if 97 \<le> n \<and> n \<le> 102 then Some (n - 87)
         else None)"

fun hex4 :: "string \<Rightarrow> nat option" where
  "hex4 [a, b, c, d] =
     (case (hex_val a, hex_val b, hex_val c, hex_val d) of
        (Some x, Some y, Some z, Some w) \<Rightarrow> Some (((x * 16 + y) * 16 + z) * 16 + w)
      | _ \<Rightarrow> None)"
| "hex4 _ = None"

definition escape_char :: "char \<Rightarrow> char option" where
  "escape_char e =
     (if e = CHR 0x22 then Some (CHR 0x22)
      else if e = CHR 0x5C then Some (CHR 0x5C)
      else if e = CHR ''/'' then Some (CHR ''/'')
      else if e = CHR ''b'' then Some (CHR 0x08)
      else if e = CHR ''f'' then Some (CHR 0x0C)
      else if e = CHR ''n'' then Some (CHR 0x0A)
      else if e = CHR ''r'' then Some (CHR 0x0D)
      else if e = CHR ''t'' then Some (CHR 0x09)
      else None)"

text \<open>
  The text after an opening quote: the decoded string and the number of characters read,
  the closing quote among them.
\<close>

fun scan_string :: "string \<Rightarrow> (string \<times> nat) option" where
  "scan_string [] = None"
| "scan_string (c # cs) =
     (if c = CHR 0x22 then Some ([], 1)
      else if (of_char c :: nat) < 32 then None
      else if c = CHR 0x5C then
        (case cs of
           [] \<Rightarrow> None
         | e # rest \<Rightarrow>
             if e = CHR ''u'' then
               (case hex4 (take 4 rest) of
                  None \<Rightarrow> None
                | Some code \<Rightarrow>
                    if code < 256 then
                      (case scan_string (drop 4 rest) of
                         None \<Rightarrow> None
                       | Some (s, n) \<Rightarrow> Some (char_of code # s, n + 6))
                    else None)
             else
               (case escape_char e of
                  None \<Rightarrow> None
                | Some d \<Rightarrow>
                    (case scan_string rest of
                       None \<Rightarrow> None
                     | Some (s, n) \<Rightarrow> Some (d # s, n + 2))))
      else
        (case scan_string cs of
           None \<Rightarrow> None
         | Some (s, n) \<Rightarrow> Some (c # s, n + 1)))"

text \<open>
  A number at the head of the text, by the pattern
  \<open>(-?(?:0|[1-9][0-9]*))(\.[0-9]+)?([eE][-+]?[0-9]+)?\<close>: its value and its length.
\<close>

definition scan_integer :: "string \<Rightarrow> string option" where
  "scan_integer s =
     (let (sign, r) = (case s of [] \<Rightarrow> ([], []) | c # cs \<Rightarrow> if c = CHR ''-'' then ([c], cs) else ([], s))
      in case r of
           [] \<Rightarrow> None
         | d # ds \<Rightarrow>
             if d = CHR ''0'' then Some (sign @ [d])
             else if is_digit d then Some (sign @ d # takeWhile is_digit ds)
             else None)"

definition scan_frac :: "string \<Rightarrow> string" where
  "scan_frac s =
     (case s of
        [] \<Rightarrow> []
      | c # cs \<Rightarrow>
          if c = CHR ''.'' \<and> takeWhile is_digit cs \<noteq> [] then c # takeWhile is_digit cs else [])"

definition scan_exp :: "string \<Rightarrow> string" where
  "scan_exp s =
     (case s of
        [] \<Rightarrow> []
      | c # cs \<Rightarrow>
          if c = CHR ''e'' \<or> c = CHR ''E'' then
            (let (sign, r) =
                   (case cs of
                      [] \<Rightarrow> ([], [])
                    | g # gs \<Rightarrow> if g = CHR ''-'' \<or> g = CHR ''+'' then ([g], gs) else ([], cs))
             in if takeWhile is_digit r \<noteq> [] then c # sign @ takeWhile is_digit r else [])
          else [])"

definition int_of_text :: "string \<Rightarrow> int" where
  "int_of_text s =
     (case s of
        [] \<Rightarrow> 0
      | c # cs \<Rightarrow> if c = CHR ''-'' then - int (nat_of_digits cs) else int (nat_of_digits s))"

definition scan_number :: "string \<Rightarrow> (json \<times> nat) option" where
  "scan_number s =
     (case scan_integer s of
        None \<Rightarrow> None
      | Some integer \<Rightarrow>
          (let frac = scan_frac (drop (length integer) s);
               exp = scan_exp (drop (length integer + length frac) s)
           in if frac \<noteq> [] \<or> exp \<noteq> []
              then Some (JFloat (integer @ frac @ exp), length integer + length frac + length exp)
              else Some (JInt (int_of_text integer), length integer)))"

definition json_whitespace :: "char \<Rightarrow> bool" where
  "json_whitespace c = (c = CHR '' '' \<or> c = CHR 0x09 \<or> c = CHR 0x0A \<or> c = CHR 0x0D)"

text \<open>
  What starts at the head of a non-empty text: whitespace (no token) or a token, with the
  number of characters it takes. The order of the tests is the order of the library's
  \<open>scan_once\<close>.
\<close>

definition token_at :: "string \<Rightarrow> (token option \<times> nat) option" where
  "token_at s =
     (case s of
        [] \<Rightarrow> None
      | c # cs \<Rightarrow>
          if json_whitespace c then Some (None, 1)
          else if c = CHR ''['' then Some (Some TLBracket, 1)
          else if c = CHR '']'' then Some (Some TRBracket, 1)
          else if c = CHR ''{'' then Some (Some TLBrace, 1)
          else if c = CHR ''}'' then Some (Some TRBrace, 1)
          else if c = CHR '','' then Some (Some TComma, 1)
          else if c = CHR '':'' then Some (Some TColon, 1)
          else if c = CHR 0x22 then
            (case scan_string cs of
               None \<Rightarrow> None
             | Some (str, n) \<Rightarrow> Some (Some (TValue (JStr str)), n + 1))
          else if prefix ''null'' s then Some (Some (TValue JNull), 4)
          else if prefix ''true'' s then Some (Some (TValue (JBool True)), 4)
          else if prefix ''false'' s then Some (Some (TValue (JBool False)), 5)
          else
            (case scan_number s of
               Some (v, n) \<Rightarrow> Some (Some (TValue v), n)
             | None \<Rightarrow>
                 if prefix ''NaN'' s then Some (Some (TValue (JFloat ''NaN'')), 3)
                 else if prefix ''Infinity'' s then Some (Some (TValue (JFloat ''Infinity'')), 8)
                 else if prefix ''-Infinity'' s then Some (Some (TValue (JFloat ''-Infinity'')), 9)
                 else None))"

text \<open>
  The tokens of a text. The counter is the number of characters still to pass over
  because the last token covers them.
\<close>

fun tokens :: "nat \<Rightarrow> string \<Rightarrow> token list option" where
  "tokens 0 [] = Some []"
| "tokens (Suc n) [] = None"
| "tokens (Suc n) (c # cs) = tokens n cs"
| "tokens 0 (c # cs) =
     (case token_at (c # cs) of
        None \<Rightarrow> None
      | Some (t, len) \<Rightarrow>
          (case tokens (len - 1) cs of
             None \<Rightarrow> None
           | Some ts \<Rightarrow> Some (case t of None \<Rightarrow> ts | Some tok \<Rightarrow> tok # ts)))"

text \<open>\<open>d[k] = v\<close> while the pairs of an object are collected.\<close>

fun dict_set :: "string \<Rightarrow> json \<Rightarrow> pydict \<Rightarrow> pydict" where
  "dict_set k v [] = [(k, v)]"
| "dict_set k v (p # ps) = (if fst p = k then (k, v) # ps else p # dict_set k v ps)"

text \<open>
  The parser reads the tokens with a stack of the containers that are open. \<open>expect\<close>
  says what may come next.
\<close>

datatype frame = FArr "json list" | FObj pydict string

datatype expect =
    EValue
  | EValueOrEnd
  | EKeyOrEnd
  | EKey
  | EColon
  | EDelim
  | EDone json

fun complete :: "json \<Rightarrow> frame list \<Rightarrow> expect \<times> frame list" where
  "complete v [] = (EDone v, [])"
| "complete v (FArr items # st) = (EDelim, FArr (items @ [v]) # st)"
| "complete v (FObj pairs k # st) = (EDelim, FObj (dict_set k v pairs) k # st)"

fun parse_step :: "expect \<times> frame list \<Rightarrow> token \<Rightarrow> (expect \<times> frame list) option" where
  "parse_step (e, st) (TValue v) =
     (if e = EValue \<or> e = EValueOrEnd then Some (complete v st)
      else if e = EKey \<or> e = EKeyOrEnd then
        (case (v, st) of
           (JStr k, FObj pairs _ # r) \<Rightarrow> Some (EColon, FObj pairs k # r)
         | _ \<Rightarrow> None)
      else None)"
| "parse_step (e, st) TLBracket =
     (if e = EValue \<or> e = EValueOrEnd then Some (EValueOrEnd, FArr [] # st) else None)"
| "parse_step (e, st) TLBrace =
     (if e = EValue \<or> e = EValueOrEnd then Some (EKeyOrEnd, FObj [] [] # st) else None)"
| "parse_step (e, st) TRBracket =
     (case st of
        FArr items # r \<Rightarrow> if e = EValueOrEnd \<or> e = EDelim then Some (complete (JArr items) r) else None
      | _ \<Rightarrow> None)"
| "parse_step (e, st) TRBrace =
     (case st of
        FObj pairs _ # r \<Rightarrow> if e = EKeyOrEnd \<or> e = EDelim then Some (complete (JObj pairs) r) else None
      | _ \<Rightarrow> None)"
| "parse_step (e, st) TComma =
     (if e = EDelim then
        (case st of
           FArr _ # _ \<Rightarrow> Some (EValue, st)
         | FObj _ _ # _ \<Rightarrow> Some (EKey, st)
         | [] \<Rightarrow> None)
      else None)"
| "parse_step (e, st) TColon = (if e = EColon then Some (EValue, st) else None)"

fun parse_tokens :: "expect \<times> frame list \<Rightarrow> token list \<Rightarrow> json option" where
  "parse_tokens (e, st) [] = (case e of EDone v \<Rightarrow> Some v | _ \<Rightarrow> None)"
| "parse_tokens (e, st) (t # ts) =
     (case parse_step (e, st) t of None \<Rightarrow> None | Some s' \<Rightarrow> parse_tokens s' ts)"

definition json_loads :: "string \<Rightarrow> exn + json" where
  "json_loads s =
     (case tokens 0 s of
        None \<Rightarrow> Inl JSONDecodeError
      | Some ts \<Rightarrow>
          (case parse_tokens (EValue, []) ts of
             None \<Rightarrow> Inl JSONDecodeError
           | Some v \<Rightarrow> Inr v))"

subsection \<open>_safe_parse_json\<close>

text \<open>
  \<open>re.search(r'(\[.*\])', text, flags=re.DOTALL)\<close> and its twin for braces. With
  \<open>DOTALL\<close> the dot matches every character, and \<open>.*\<close> is greedy: the match starts at the
  first opening character that has a closing character somewhere after it, and ends at
  the last closing character of the text.
\<close>

definition greedy_span :: "char \<Rightarrow> char \<Rightarrow> string \<Rightarrow> string option" where
  "greedy_span opening closing text =
     (case dropWhile (\<lambda>c. c \<noteq> opening) text of
        [] \<Rightarrow> None
      | c # rest \<Rightarrow>
          if closing \<in> set rest
          then Some (c # rev (dropWhile (\<lambda>c. c \<noteq> closing) (rev rest)))
          else None)"

lemma dropWhile_Cons_shorter: "dropWhile P xs = y # ys \<Longrightarrow> length ys < length xs"
  by (metis Suc_le_eq length_Cons length_dropWhile_le)

text \<open>
  \<open>re.sub(r',\s*([\]}])', r'\1', candidate)\<close>: from left to right, a comma followed by any
  whitespace and then a closing bracket or brace is replaced by that bracket or brace,
  and the scan goes on after it.
\<close>

function strip_trailing_commas :: "string \<Rightarrow> string" where
  "strip_trailing_commas [] = []"
| "strip_trailing_commas (c # cs) =
     (if c = CHR '','' then
        (case dropWhile is_space cs of
           [] \<Rightarrow> c # strip_trailing_commas cs
         | d # ds \<Rightarrow>
             if d = CHR '']'' \<or> d = CHR ''}'' then d # strip_trailing_commas ds
             else c # strip_trailing_commas cs)
      else c # strip_trailing_commas cs)"
  by pat_completeness auto
termination
  by (relation "measure length") (auto dest: dropWhile_Cons_shorter)

text \<open>
  The function returns a Python value; \<open>None\<close>, which is \<open>JNull\<close>, stands both for a text that
  decodes to \<open>null\<close> and for a text that cannot be decoded. \<open>loads\<close> is \<open>json.loads\<close>: it
  returns a value or raises.
\<close>

definition safe_parse_json :: "(string \<Rightarrow> exn + json) \<Rightarrow> string \<Rightarrow> json" where
  "safe_parse_json loads text0 =
     (let text = strip text0
      in if text = [] then JNull
         else
           (case loads text of
              Inr v \<Rightarrow> v
            | Inl e \<Rightarrow>
                (let first_array = greedy_span (CHR ''['') (CHR '']'') text;
                     first_obj = greedy_span (CHR ''{'') (CHR ''}'') text;
                     candidate = (case first_array of Some a \<Rightarrow> Some a | None \<Rightarrow> first_obj)
                 in case candidate of
                      None \<Rightarrow> JNull
                    | Some cand \<Rightarrow>
                        if cand = [] then JNull
                        else
                          (case loads cand of
                             Inr v \<Rightarrow> v
                           | Inl e \<Rightarrow>
                               (case loads (strip_trailing_commas cand) of
                                  Inr v \<Rightarrow> v
                                | Inl e \<Rightarrow> JNull)))))"

subsection \<open>check_clause\<close>

text \<open>
  The generative service is outside the repository. The model keeps the module-level
  \<open>GEN_KEY = os.getenv("GEMINI_API_KEY")\<close> and one function for the three steps
  \<open>genai.GenerativeModel(model)\<close>, \<open>generate_content(...)\<close> and \<open>resp.text\<close>: from the model
  name, the system text and the prompt it gives the response text, or it raises.
\<close>

record gen_service =
  GEN_KEY :: "string option"
  generate_content :: "string \<Rightarrow> string \<Rightarrow> string \<Rightarrow> exn + string"

text \<open>\<open>not GEN_KEY\<close> is false for a non-empty string only.\<close>

definition key_configured :: "gen_service \<Rightarrow> bool" where
  "key_configured g = (case GEN_KEY g of None \<Rightarrow> False | Some k \<Rightarrow> k \<noteq> [])"

definition system_text :: string where
  "system_text =
     ''You are an ADGM legal compliance assistant. You will analyze a single clause and return ONLY valid JSON.''
     @ newline
     @ ''The JSON must be an array of objects. Each object MUST have the keys:'' @ newline
     @ ''paragraph_index, issue, severity (Low/Medium/High), suggestion, citation.'' @ newline
     @ ''OPTIONAL keys: alt_clause (a recommended alternative clause wording), clause_type (e.g., Governing Law, Execution, UBO, Signature), confidence (0-1 float).''
     @ newline
     @ ''Do NOT include any extra commentary outside the JSON array.''"

definition prompt_text :: "string \<Rightarrow> string \<Rightarrow> string" where
  "prompt_text context clause_text =
     ''Context (ADGM reference materials):'' @ newline @ context @ newline @ newline
     @ ''Clause (to analyze):'' @ newline @ clause_text @ newline @ newline
     @ ''Tasks:'' @ newline
     @ ''1. Detect red flags: incorrect jurisdiction, missing or invalid clauses, ambiguous wording, missing signatory, formatting issues, non-compliance with ADGM templates.''
     @ newline
     @ ''2. For each issue provide a suggestion and, where possible, an alternative clause wording (alt_clause) that would be compliant.''
     @ newline
     @ ''3. Provide a citation pointing to the ADGM law, regulation or template if possible (give section/article if available).''
     @ newline
     @ ''4. Output ONLY valid JSON as described. If there are no issues, output an empty array: []''
     @ newline"

text \<open>
  \<open>for it in parsed\<close>: a list gives its elements, a dict its keys, a string its characters;
  a number or a boolean is not iterable.
\<close>

fun py_iter :: "json \<Rightarrow> exn + json list" where
  "py_iter (JArr xs) = Inr xs"
| "py_iter (JObj d) = Inr (map (\<lambda>kv. JStr (fst kv)) d)"
| "py_iter (JStr s) = Inr (map (\<lambda>c. JStr [c]) s)"
| "py_iter _ = Inl TypeError"

text \<open>
  The body of that loop: a dict gets \<open>paragraph_index\<close> when it has none and goes to \<open>out\<close>
  when it has the three keys; anything else is passed over.
\<close>

fun keep_item :: "int \<Rightarrow> json \<Rightarrow> pydict list" where
  "keep_item paragraph_index (JObj d) =
     (let it = setdefault ''paragraph_index'' (JInt paragraph_index) d
      in if has_key ''issue'' it \<and> has_key ''severity'' it \<and> has_key ''suggestion'' it
         then [it] else [])"
| "keep_item paragraph_index _ = []"

text \<open>A list or a dict cannot be a member of a set: hashing it raises \<open>TypeError\<close>.\<close>

fun hashable :: "json \<Rightarrow> bool" where
  "hashable (JArr _) = False"
| "hashable (JObj _) = False"
| "hashable _ = True"

text \<open>\<open>{i['issue'] for i in issues}\<close>, as the list of its elements.\<close>

fun issue_texts :: "pydict list \<Rightarrow> exn + json list" where
  "issue_texts [] = Inr []"
| "issue_texts (i # rest) =
     (case dict_index i ''issue'' of
        Inl e \<Rightarrow> Inl e
      | Inr t \<Rightarrow>
          if \<not> hashable t then Inl TypeError
          else (case issue_texts rest of Inl e \<Rightarrow> Inl e | Inr ts \<Rightarrow> Inr (t # ts)))"

text \<open>
  The loop \<open>for o in out\<close>, which appends to the list \<open>issues\<close> in place. The result is the
  exception that stopped the loop, if any, and the list as the loop left it. The set
  \<open>existing\<close> holds strings only, for which Python's \<open>==\<close> is equality of the values here.
\<close>

fun merge_out :: "json list \<Rightarrow> pydict list \<Rightarrow> pydict list \<Rightarrow> exn option \<times> pydict list" where
  "merge_out existing issues [] = (None, issues)"
| "merge_out existing issues (o1 # rest) =
     (let t = dict_get o1 ''issue''
      in if \<not> hashable t then (Some TypeError, issues)
         else if t \<notin> set existing then merge_out existing (issues @ [o1]) rest
         else merge_out existing issues rest)"

text \<open>
  The body of the \<open>try\<close>: what it returns or the exception it raises, and the list \<open>issues\<close>
  as it is at that moment.
\<close>

definition try_body ::
  "(string \<Rightarrow> exn + json) \<Rightarrow> gen_service \<Rightarrow> string \<Rightarrow> string \<Rightarrow> int \<Rightarrow> pydict list
     \<Rightarrow> (exn + pydict list) \<times> pydict list" where
  "try_body loads g model prompt paragraph_index issues =
     (case generate_content g model system_text prompt of
        Inl e \<Rightarrow> (Inl e, issues)
      | Inr resp_text \<Rightarrow>
          (let text = strip resp_text;
               parsed = safe_parse_json loads text
           in if parsed = JNull then (Inr issues, issues)
              else
                (case py_iter parsed of
                   Inl e \<Rightarrow> (Inl e, issues)
                 | Inr items \<Rightarrow>
                     (let out = concat (map (keep_item paragraph_index) items)
                      in case issue_texts issues of
                           Inl e \<Rightarrow> (Inl e, issues)
                         | Inr existing_issues_texts \<Rightarrow>
                             (case merge_out existing_issues_texts issues out of
                                (Some e, issues') \<Rightarrow> (Inl e, issues')
                              | (None, issues') \<Rightarrow> (Inr issues', issues'))))))"

text \<open>The calls that leave the program, in the order they are made.\<close>

datatype call = SimilaritySearch string nat | GenerateContent string string string

text \<open>
  \<open>check_clause\<close> returns the issues; the model returns with them the outside calls made.
  The handler \<open>except Exception\<close> returns the list \<open>issues\<close> as the \<open>try\<close> left it.
\<close>

definition check_clause ::
  "(string \<Rightarrow> exn + json) \<Rightarrow> gen_service \<Rightarrow> string \<Rightarrow> int \<Rightarrow> vectorstore \<Rightarrow> string
     \<Rightarrow> pydict list \<times> call list" where
  "check_clause loads g clause_text paragraph_index vs model =
     (let issues = simple_heuristic_checks clause_text paragraph_index;
          context = retrieve_context vs clause_text 4 None;
          prompt = prompt_text context clause_text
      in if \<not> key_configured g then (issues, [SimilaritySearch clause_text 4])
         else
           (case try_body loads g model prompt paragraph_index issues of
              (Inr result, _) \<Rightarrow>
                (result, [SimilaritySearch clause_text 4, GenerateContent model system_text prompt])
            | (Inl e, issues') \<Rightarrow>
                (issues', [SimilaritySearch clause_text 4, GenerateContent model system_text prompt])))"

text \<open>The \<open>issue\<close> values of a list of issues, in order (\<open>None\<close> where the key is missing).\<close>

definition issue_values :: "pydict list \<Rightarrow> json list" where
  "issue_values issues = map (\<lambda>d. dict_get d ''issue'') issues"

section \<open>The tolerant extraction as the specification words it\<close>

text \<open>
  The specification locates the spans by non-greedy matching: \<open>\[.*?\]\<close> starts at the first
  opening character that has a closing character after it and ends at the first closing
  character after that start. \<open>spec_tolerant_extraction\<close> is the extraction with these
  spans and otherwise the stages of the specification: direct, array span or else object
  span, comma repair, and the absent result.
\<close>

definition nongreedy_span :: "char \<Rightarrow> char \<Rightarrow> string \<Rightarrow> string option" where
  "nongreedy_span opening closing text =
     (case dropWhile (\<lambda>c. c \<noteq> opening) text of
        [] \<Rightarrow> None
      | c # rest \<Rightarrow>
          if closing \<in> set rest
          then Some (c # takeWhile (\<lambda>c. c \<noteq> closing) rest @ [closing])
          else None)"

definition spec_tolerant_extraction :: "(string \<Rightarrow> exn + json) \<Rightarrow> string \<Rightarrow> json" where
  "spec_tolerant_extraction loads text0 =
     (let text = strip text0
      in if text = [] then JNull
         else
           (case loads text of
              Inr v \<Rightarrow> v
            | Inl e \<Rightarrow>
                (case (case nongreedy_span (CHR ''['') (CHR '']'') text of
                         Some a \<Rightarrow> Some a
                       | None \<Rightarrow> nongreedy_span (CHR ''{'') (CHR ''}'') text) of
                   None \<Rightarrow> JNull
                 | Some cand \<Rightarrow>
                     (case loads cand of
                        Inr v \<Rightarrow> v
                      | Inl e \<Rightarrow>
                          (case loads (strip_trailing_commas cand) of
                             Inr v \<Rightarrow> v
                           | Inl e \<Rightarrow> JNull)))))"

section \<open>Environments for the concrete runs\<close>

text \<open>A vector store that finds nothing, one whose search times out, and one that returns
  two passages of different categories.\<close>

definition empty_store :: vectorstore where
  "empty_store = \<lparr>has_relevance_scores = True, similarity_search = (\<lambda>query k. Inr [])\<rparr>"

definition timeout_store :: vectorstore where
  "timeout_store =
     \<lparr>has_relevance_scores = True, similarity_search = (\<lambda>query k. Inl TimeoutError)\<rparr>"

definition two_category_store :: vectorstore where
  "two_category_store =
     \<lparr>has_relevance_scores = True,
      similarity_search = (\<lambda>query k.
        Inr [\<lparr>page_content = ''Passage on licensing.'',
               metadata = [(''source'', MStr ''a.txt''), (''category'', MStr ''Licensing'')]\<rparr>,
             \<lparr>page_content = ''Passage on employment.'',
               metadata = [(''source'', MStr ''b.txt''), (''category'', MStr ''Employment'')]\<rparr>])\<rparr>"

text \<open>A service without a key, one whose call times out, and one that answers a fixed text.\<close>

definition keyless_service :: gen_service where
  "keyless_service = \<lparr>GEN_KEY = None, generate_content = (\<lambda>model system prompt. Inr ''[]'')\<rparr>"

definition timeout_service :: gen_service where
  "timeout_service =
     \<lparr>GEN_KEY = Some ''key'', generate_content = (\<lambda>model system prompt. Inl TimeoutError)\<rparr>"

definition replying_service :: "string \<Rightarrow> gen_service" where
  "replying_service reply =
     \<lparr>GEN_KEY = Some ''key'', generate_content = (\<lambda>model system prompt. Inr reply)\<rparr>"

definition one_finding_reply :: string where
  "one_finding_reply = ''[{\"issue\":\"X\",\"severity\":\"Low\",\"suggestion\":\"Y\"}]''"

definition repeated_finding_reply :: string where
  "repeated_finding_reply =
     ''[{\"issue\":\"X\",\"severity\":\"Low\",\"suggestion\":\"Y\"},''
     @ '' {\"issue\":\"X\",\"severity\":\"Low\",\"suggestion\":\"Z\"}]''"

definition object_reply :: string where
  "object_reply = ''{\"issue\":\"X\",\"severity\":\"Low\",\"suggestion\":\"Y\"}''"

definition number_reply :: string where
  "number_reply = ''42''"

definition two_arrays_reply :: string where
  "two_arrays_reply = ''[\"a\"] [\"b\"]''"

definition trailing_comma_reply :: string where
  "trailing_comma_reply =
     ''Here are the findings: [{\"issue\":\"X\",\"severity\":\"Low\",\"suggestion\":\"Y\",\"citation\":\"\"},]''"

definition object_with_comma_reply :: string where
  "object_with_comma_reply = ''Result: {\"issue\": \"X\", } done''"

definition prose_reply :: string where
  "prose_reply = ''No issues were found.''"

definition finding_X :: "string \<Rightarrow> int \<Rightarrow> pydict" where
  "finding_X suggestion paragraph_index =
     [(''issue'', JStr ''X''), (''severity'', JStr ''Low''), (''suggestion'', JStr suggestion),
      (''paragraph_index'', JInt paragraph_index)]"

definition governed_clause :: string where
  "governed_clause = ''This contract is governed by the laws of England.''"

definition endeavours_clause :: string where
  "endeavours_clause = ''The parties shall use reasonable endeavours to complete the transfer.''"

section \<open>Properties of utils.py\<close>

lemma lower_append: "lower (t @ u) = lower t @ lower u"
  by (simp add: lower_def)

lemma py_in_append: "py_in kw t \<Longrightarrow> py_in kw (t @ u)"
  by (auto simp: py_in_def sublist_append)

lemma set_order_set: "set_order order \<Longrightarrow> set (order xs) = set xs"
  unfolding set_order_def by (metis mset_eq_setD)

lemma set_order_Nil: "set_order order \<Longrightarrow> order xs = [] \<longleftrightarrow> xs = []"
  unfolding set_order_def by (metis mset_zero_iff)

lemma set_order_distinct: "set_order order \<Longrightarrow> distinct (order xs) = distinct xs"
  unfolding set_order_def by (metis mset_eq_imp_distinct_iff)

text \<open>
  C9. Every document type that \<open>detect_doc_type_from_text\<close> detects on a text \<open>t\<close> is also
  detected on \<open>t\<close> followed by any further text \<open>u\<close>: appending text never removes a label.
\<close>

theorem detect_doc_type_monotone:
  "label \<in> detect_doc_type_from_text t \<Longrightarrow> label \<in> detect_doc_type_from_text (t @ u)"
proof -
  assume "label \<in> detect_doc_type_from_text t"
  then obtain kws kw where
    a: "(label, kws) \<in> set DOC_TYPE_KEYWORDS" "kw \<in> set kws" "py_in kw (lower t)"
    by (auto simp: detect_doc_type_from_text_def Let_def list_ex_iff)
  from a(3) have "py_in kw (lower (t @ u))"
    by (simp add: lower_append py_in_append)
  with a(1,2) show ?thesis
    by (force simp: detect_doc_type_from_text_def Let_def list_ex_iff)
qed

theorem detect_doc_type_monotone_witness:
  "''Board Resolution'' \<in> detect_doc_type_from_text ''Signed Board Resolution''
   \<and> ''Board Resolution''
       \<in> detect_doc_type_from_text (''Signed Board Resolution'' @ '' and an NDA'')"
proof -
  have h: "''Board Resolution'' \<in> detect_doc_type_from_text ''Signed Board Resolution''"
    by code_simp
  from detect_doc_type_monotone [OF h, of "'' and an NDA''"] h show ?thesis
    by (rule_tac conjI)
qed

text \<open>
  C7. For every process and every sequence of uploaded types, the missing list of
  \<open>checklist_comparison_for_process\<close> holds, each once, exactly the required documents of
  the process that are not among the uploaded types (the set difference, in whatever
  order the set is listed), and it is empty if and only if every required document is
  among the uploaded types.
\<close>

theorem checklist_missing_is_difference:
  assumes "set_order order"
  shows "case checklist_comparison_for_process order process uploaded_types of
           (required, missing, uploaded_count, required_count) \<Rightarrow>
             required = checklist_get process
             \<and> set missing = set required - set uploaded_types
             \<and> distinct missing
             \<and> (missing = [] \<longleftrightarrow> set required \<subseteq> set uploaded_types)"
  using assms
  by (auto simp: checklist_comparison_for_process_def set_difference_list_def Let_def
        set_order_set set_order_Nil set_order_distinct filter_empty_conv)

theorem checklist_missing_is_difference_witness:
  "set_order (\<lambda>xs. xs)
   \<and> (case checklist_comparison_for_process (\<lambda>xs. xs) ''Company Incorporation''
              [''Articles of Association''] of
         (required, missing, uploaded_count, required_count) \<Rightarrow>
           set missing = set required - {''Articles of Association''} \<and> length missing = 7)"
proof -
  have h: "set_order (\<lambda>xs. xs)"
    by (simp add: set_order_def)
  have l: "length (fst (snd (checklist_comparison_for_process (\<lambda>xs. xs)
              ''Company Incorporation'' [''Articles of Association'']))) = 7"
    by code_simp
  from checklist_missing_is_difference
         [OF h, of "''Company Incorporation''" "[''Articles of Association'']"] h l
  show ?thesis
    by (auto split: prod.splits)
qed

text \<open>
  C6. The message of \<open>build_user_checklist_message\<close> at the process
  \<open>Company Incorporation\<close> with the uploaded types \<open>Articles of Association\<close> and \<open>NDA\<close>: it
  says that 2 out of 8 required documents were uploaded and then names 7 missing ones,
  while one required document, \<open>Articles of Association\<close>, is among the uploads. The number
  in the message is the number of uploaded types, not of required documents found.
\<close>

theorem checklist_message_counts_all_uploads:
  "build_user_checklist_message (\<lambda>xs. xs) ''Company Incorporation''
      [''Articles of Association'', ''NDA'']
   = ''It appears that you'' @ rsquo @ ''re trying to incorporate a company in ADGM. ''
     @ ''Based on our reference list, you have uploaded 2 out of 8 required documents. ''
     @ ''The missing document(s) appears to be: ''
     @ quote ''Memorandum of Association'' @ '', '' @ quote ''Board Resolution'' @ '', ''
     @ quote ''Shareholder Resolution'' @ '', '' @ quote ''Incorporation Application Form'' @ '', ''
     @ quote ''UBO Declaration Form'' @ '', '' @ quote ''Register of Members and Directors'' @ '', ''
     @ quote ''Change of Registered Address Notice'' @ ''.''
   \<and> filter (\<lambda>r. r \<in> set [''Articles of Association'', ''NDA''])
        (checklist_get ''Company Incorporation'') = [''Articles of Association'']"
  by code_simp

section \<open>Properties of checker.py\<close>

lemma severity_simps:
  "dict_get (jurisdiction_issue i) ''severity'' = JStr ''High''"
  "dict_get (governing_law_issue i) ''severity'' = JStr ''High''"
  "dict_get (signature_issue i) ''severity'' = JStr ''Medium''"
  "dict_get (ambiguous_issue i p) ''severity'' = JStr ''Low''"
  "dict_get (ubo_issue i) ''severity'' = JStr ''Medium''"
  by (simp_all add: dict_get_def issue_dict_def jurisdiction_issue_def governing_law_issue_def
        signature_issue_def ambiguous_issue_def ubo_issue_def)

lemma lower_ambiguous_phrase: "p \<in> set ambiguous_phrases \<Longrightarrow> lower p = p"
  by (auto simp: ambiguous_phrases_def lower_def lower_char_def)

lemma py_in_lower: "py_in p t \<Longrightarrow> py_in (lower p) (lower t)"
  by (simp add: py_in_def lower_def map_mono_sublist)

text \<open>
  C8. When the clause text contains a phrase of the list \<open>ambiguous_phrases\<close> (as it stands or
  after lowering, which is how the code looks for it), the issues of
  \<open>_simple_heuristic_checks\<close> with severity \<open>Low\<close> are exactly one: the ambiguous-language
  issue whose \<open>issue\<close> and \<open>suggestion\<close> texts quote the first phrase of the list that occurs
  in the lowered text, and no other phrase. The clause
  \<open>The parties shall use reasonable endeavours to complete the transfer.\<close> yields that one
  issue, with the text \<open>Ambiguous/non-binding phrase detected: 'reasonable endeavours'.\<close>,
  and nothing else.
\<close>

theorem ambiguous_rule_reports_first_phrase:
  assumes "p0 \<in> set ambiguous_phrases"
    and "py_in p0 clause_text \<or> py_in p0 (lower clause_text)"
  shows "\<exists>i < length ambiguous_phrases.
           py_in (ambiguous_phrases ! i) (lower clause_text)
           \<and> (\<forall>j < i. \<not> py_in (ambiguous_phrases ! j) (lower clause_text))
           \<and> filter (\<lambda>d. dict_get d ''severity'' = JStr ''Low'')
                (simple_heuristic_checks clause_text paragraph_index)
               = [[(''paragraph_index'', JInt paragraph_index),
                   (''issue'',
                    JStr (''Ambiguous/non-binding phrase detected: '' @ [CHR 0x27]
                          @ ambiguous_phrases ! i @ [CHR 0x27] @ ''.'')),
                   (''severity'', JStr ''Low''),
                   (''suggestion'',
                    JStr (''Consider replacing '' @ [CHR 0x27] @ ambiguous_phrases ! i @ [CHR 0x27]
                          @ '' with a precise obligation or timescale.'')),
                   (''citation'', JStr [])]]"
proof -
  let ?P = "\<lambda>p. py_in p (lower clause_text)"
  from assms have "?P p0"
    using py_in_lower [of p0 clause_text] lower_ambiguous_phrase [of p0] by auto
  with assms(1) have "find ?P ambiguous_phrases \<noteq> None"
    by (auto simp: find_None_iff)
  then obtain p where p: "find ?P ambiguous_phrases = Some p"
    by auto
  then obtain i where i: "i < length ambiguous_phrases" "?P (ambiguous_phrases ! i)"
    "p = ambiguous_phrases ! i" "\<forall>j < i. \<not> ?P (ambiguous_phrases ! j)"
    by (auto simp: find_Some_iff)
  have "filter (\<lambda>d. dict_get d ''severity'' = JStr ''Low'')
          (simple_heuristic_checks clause_text paragraph_index)
        = [ambiguous_issue paragraph_index p]"
    unfolding simple_heuristic_checks_def Let_def p
    by (simp add: severity_simps)
  then have "filter (\<lambda>d. dict_get d ''severity'' = JStr ''Low'')
          (simple_heuristic_checks clause_text paragraph_index)
        = [[(''paragraph_index'', JInt paragraph_index),
            (''issue'',
             JStr (''Ambiguous/non-binding phrase detected: '' @ [CHR 0x27] @ p @ [CHR 0x27] @ ''.'')),
            (''severity'', JStr ''Low''),
            (''suggestion'',
             JStr (''Consider replacing '' @ [CHR 0x27] @ p @ [CHR 0x27]
                   @ '' with a precise obligation or timescale.'')),
            (''citation'', JStr [])]]"
    by (simp add: ambiguous_issue_def issue_dict_def quote_def)
  with i show ?thesis
    by blast
qed

theorem ambiguous_rule_reports_first_phrase_witness:
  "''reasonable endeavours'' \<in> set ambiguous_phrases
   \<and> py_in ''reasonable endeavours''
        ''The parties shall use reasonable endeavours to complete the transfer.''
   \<and> simple_heuristic_checks
        ''The parties shall use reasonable endeavours to complete the transfer.'' 7
       = [[(''paragraph_index'', JInt 7),
           (''issue'',
            JStr (''Ambiguous/non-binding phrase detected: '' @ [CHR 0x27]
                  @ ''reasonable endeavours'' @ [CHR 0x27] @ ''.'')),
           (''severity'', JStr ''Low''),
           (''suggestion'',
            JStr (''Consider replacing '' @ [CHR 0x27] @ ''reasonable endeavours'' @ [CHR 0x27]
                  @ '' with a precise obligation or timescale.'')),
           (''citation'', JStr [])]]
   \<and> (\<exists>i < length ambiguous_phrases.
         ambiguous_phrases ! i = ''reasonable endeavours''
         \<and> filter (\<lambda>d. dict_get d ''severity'' = JStr ''Low'')
           (simple_heuristic_checks
              ''The parties shall use reasonable endeavours to complete the transfer.'' 7)
         = [[(''paragraph_index'', JInt 7),
             (''issue'',
              JStr (''Ambiguous/non-binding phrase detected: '' @ [CHR 0x27]
                    @ ambiguous_phrases ! i @ [CHR 0x27] @ ''.'')),
             (''severity'', JStr ''Low''),
             (''suggestion'',
              JStr (''Consider replacing '' @ [CHR 0x27] @ ambiguous_phrases ! i @ [CHR 0x27]
                    @ '' with a precise obligation or timescale.'')),
             (''citation'', JStr [])]])"
proof -
  let ?c = "''The parties shall use reasonable endeavours to complete the transfer.''"
  have h1: "''reasonable endeavours'' \<in> set ambiguous_phrases"
    by code_simp
  have h3: "py_in ''reasonable endeavours'' ?c"
    by code_simp
  then have h2: "py_in ''reasonable endeavours'' ?c \<or> py_in ''reasonable endeavours'' (lower ?c)"
    by simp
  have e: "simple_heuristic_checks ?c 7
       = [[(''paragraph_index'', JInt 7),
           (''issue'',
            JStr (''Ambiguous/non-binding phrase detected: '' @ [CHR 0x27]
                  @ ''reasonable endeavours'' @ [CHR 0x27] @ ''.'')),
           (''severity'', JStr ''Low''),
           (''suggestion'',
            JStr (''Consider replacing '' @ [CHR 0x27] @ ''reasonable endeavours'' @ [CHR 0x27]
                  @ '' with a precise obligation or timescale.'')),
           (''citation'', JStr [])]]"
    by code_simp
  from ambiguous_rule_reports_first_phrase [OF h1 h2, of 7]
  obtain i where i: "i < length ambiguous_phrases"
    "py_in (ambiguous_phrases ! i) (lower ?c)"
    "\<forall>j < i. \<not> py_in (ambiguous_phrases ! j) (lower ?c)"
    "filter (\<lambda>d. dict_get d ''severity'' = JStr ''Low'') (simple_heuristic_checks ?c 7)
         = [[(''paragraph_index'', JInt 7),
             (''issue'',
              JStr (''Ambiguous/non-binding phrase detected: '' @ [CHR 0x27]
                    @ ambiguous_phrases ! i @ [CHR 0x27] @ ''.'')),
             (''severity'', JStr ''Low''),
             (''suggestion'',
              JStr (''Consider replacing '' @ [CHR 0x27] @ ambiguous_phrases ! i @ [CHR 0x27]
                    @ '' with a precise obligation or timescale.'')),
             (''citation'', JStr [])]]"
    by blast
  from i(4) e have "ambiguous_phrases ! i = ''reasonable endeavours''"
    by (simp add: dict_get_def)
  with i(1,4) h1 h3 e show ?thesis
    by blast
qed

lemma issue_simps:
  "dict_get (jurisdiction_issue i) ''issue''
     = JStr ''Incorrect jurisdiction referenced (mentions UAE federal courts).''"
  "dict_get (governing_law_issue i) ''issue''
     = JStr ''Governing law clause present but does not specify ADGM.''"
  "dict_get (signature_issue i) ''issue'' = JStr ''Possible missing signature / execution block.''"
  "dict_get (ambiguous_issue i p) ''issue''
     = JStr (''Ambiguous/non-binding phrase detected: '' @ quote p @ ''.'')"
  "dict_get (ubo_issue i) ''issue''
     = JStr ''Clause concerns ownership/shareholders but UBO disclosures are not referenced.''"
  by (simp_all add: dict_get_def issue_dict_def jurisdiction_issue_def governing_law_issue_def
        signature_issue_def ambiguous_issue_def ubo_issue_def)

lemma distinct_five:
  assumes "f x1 \<noteq> f x2" "f x1 \<noteq> f x3" "f x1 \<noteq> f x5" "f x2 \<noteq> f x3" "f x2 \<noteq> f x5"
    "f x3 \<noteq> f x5"
    "\<And>p. f (x4 p) \<noteq> f x1" "\<And>p. f (x4 p) \<noteq> f x2" "\<And>p. f (x4 p) \<noteq> f x3"
    "\<And>p. f (x4 p) \<noteq> f x5"
  shows "distinct (map f ((if a then [x1] else []) @ (if b then [x2] else [])
           @ (if c then [x3] else []) @ (case m of None \<Rightarrow> [] | Some p \<Rightarrow> [x4 p])
           @ (if e then [x5] else [])))"
  using assms by (cases a; cases b; cases c; cases m; cases e; simp; metis)

lemma heuristic_issues_distinct:
  "distinct (issue_values (simple_heuristic_checks clause_text paragraph_index))"
  unfolding simple_heuristic_checks_def Let_def issue_values_def
  by (rule distinct_five) (simp_all add: issue_simps)

lemma issue_texts_strings:
  "\<forall>d \<in> set xs. \<exists>s. map_of d ''issue'' = Some (JStr s) \<Longrightarrow>
   issue_texts xs = Inr (issue_values xs)"
  by (induction xs) (auto simp: dict_index_def dict_get_def issue_values_def)

lemma heuristic_issue_is_string:
  "d \<in> set (simple_heuristic_checks clause_text paragraph_index) \<Longrightarrow>
   \<exists>s. map_of d ''issue'' = Some (JStr s)"
  unfolding simple_heuristic_checks_def Let_def
  by (auto simp: issue_dict_def jurisdiction_issue_def governing_law_issue_def
        signature_issue_def ambiguous_issue_def ubo_issue_def
      split: if_splits option.splits)

lemma issue_texts_heuristic:
  "issue_texts (simple_heuristic_checks clause_text paragraph_index)
   = Inr (issue_values (simple_heuristic_checks clause_text paragraph_index))"
  by (rule issue_texts_strings) (blast dest: heuristic_issue_is_string)

lemma merge_out_appends:
  "merge_out existing issues out = (e, r) \<Longrightarrow>
   \<exists>extra. r = issues @ extra \<and> (\<forall>o1 \<in> set extra. dict_get o1 ''issue'' \<notin> set existing)"
proof (induction out arbitrary: issues)
  case Nil
  then show ?case by simp
next
  case (Cons o1 rest)
  show ?case
  proof (cases "hashable (dict_get o1 ''issue'')")
    case False
    with Cons.prems show ?thesis by simp
  next
    case True
    show ?thesis
    proof (cases "dict_get o1 ''issue'' \<in> set existing")
      case True
      with \<open>hashable (dict_get o1 ''issue'')\<close> Cons.prems
      have "merge_out existing issues rest = (e, r)" by simp
      from Cons.IH [OF this] show ?thesis .
    next
      case False
      with \<open>hashable (dict_get o1 ''issue'')\<close> Cons.prems
      have "merge_out existing (issues @ [o1]) rest = (e, r)" by simp
      from Cons.IH [OF this] obtain extra where
        "r = (issues @ [o1]) @ extra" "\<forall>o2 \<in> set extra. dict_get o2 ''issue'' \<notin> set existing"
        by blast
      with False have "r = issues @ (o1 # extra)
          \<and> (\<forall>o2 \<in> set (o1 # extra). dict_get o2 ''issue'' \<notin> set existing)"
        by simp
      then show ?thesis by blast
    qed
  qed
qed

lemma try_body_heuristic:
  assumes "try_body loads g model prompt paragraph_index
             (simple_heuristic_checks clause_text paragraph_index) = (outcome, issues')"
  shows "(\<exists>extra. issues' = simple_heuristic_checks clause_text paragraph_index @ extra
            \<and> (\<forall>o1 \<in> set extra. dict_get o1 ''issue''
                  \<notin> set (issue_values (simple_heuristic_checks clause_text paragraph_index))))
         \<and> (\<forall>r. outcome = Inr r \<longrightarrow> r = issues')"
  using assms
  unfolding try_body_def Let_def issue_texts_heuristic
  by (auto split: sum.splits if_splits prod.splits option.splits dest!: merge_out_appends)

text \<open>
  C2. When the credential is absent (\<open>GEN_KEY\<close> is \<open>None\<close> or the empty string),
  \<open>check_clause\<close> returns exactly the list of \<open>_simple_heuristic_checks\<close>, the same issues in
  the same order, and the only outside call it makes is the similarity search: there is
  no call to the generative service, and the result is the same whatever that service
  would have answered.
\<close>

theorem check_clause_without_key:
  assumes "GEN_KEY g = None \<or> GEN_KEY g = Some []"
  shows "check_clause loads g clause_text paragraph_index vs model
           = (simple_heuristic_checks clause_text paragraph_index,
              [SimilaritySearch clause_text 4])
         \<and> (\<forall>m s p. GenerateContent m s p
               \<notin> set (snd (check_clause loads g clause_text paragraph_index vs model)))
         \<and> (\<forall>f. check_clause loads (g\<lparr>generate_content := f\<rparr>) clause_text paragraph_index
                   vs model
                 = check_clause loads g clause_text paragraph_index vs model)"
  using assms by (auto simp: check_clause_def key_configured_def Let_def)

theorem check_clause_without_key_witness:
  "GEN_KEY keyless_service = None
   \<and> check_clause json_loads keyless_service endeavours_clause 7 empty_store ''gemini-pro''
       = ([ambiguous_issue 7 ''reasonable endeavours''], [SimilaritySearch endeavours_clause 4])"
proof -
  have k: "GEN_KEY keyless_service = None \<or> GEN_KEY keyless_service = Some []"
    by (simp add: keyless_service_def)
  have h: "simple_heuristic_checks endeavours_clause 7 = [ambiguous_issue 7 ''reasonable endeavours'']"
    by code_simp
  from check_clause_without_key [OF k, of json_loads endeavours_clause 7 empty_store "''gemini-pro''"] h
  show ?thesis
    by (simp add: keyless_service_def)
qed

lemma retrieve_context_search_raises:
  "similarity_search vs query k = Inl e \<Longrightarrow> retrieve_context vs query k category_filter = []"
  by (simp add: retrieve_context_def)

lemma retrieve_context_no_results:
  "retrieve_context (vs\<lparr>similarity_search := (\<lambda>query k. Inr [])\<rparr>) query k category_filter = []"
  by (simp add: retrieve_context_def)

lemma try_body_call_raises:
  "generate_content g model system_text prompt = Inl e \<Longrightarrow>
   try_body loads g model prompt paragraph_index issues = (Inl e, issues)"
  by (simp add: try_body_def)

lemma try_body_not_iterable:
  "generate_content g model system_text prompt = Inr resp \<Longrightarrow>
   py_iter (safe_parse_json loads (strip resp)) = Inl e \<Longrightarrow>
   snd (try_body loads g model prompt paragraph_index issues) = issues"
  by (simp add: try_body_def Let_def)

lemma check_clause_after_try:
  "key_configured g \<Longrightarrow>
   fst (check_clause loads g clause_text paragraph_index vs model)
   = snd (try_body loads g model (prompt_text (retrieve_context vs clause_text 4 None) clause_text)
            paragraph_index (simple_heuristic_checks clause_text paragraph_index))"
  unfolding check_clause_def Let_def
  by (auto split: sum.splits prod.splits dest: try_body_heuristic)

lemma merge_out_filter:
  "\<forall>o1 \<in> set out. hashable (dict_get o1 ''issue'') \<Longrightarrow>
   merge_out existing issues out
   = (None, issues @ filter (\<lambda>o1. dict_get o1 ''issue'' \<notin> set existing) out)"
  by (induction out arbitrary: issues) (auto simp: Let_def)

lemma check_clause_merge:
  assumes "key_configured g"
    and "generate_content g model system_text
           (prompt_text (retrieve_context vs clause_text 4 None) clause_text) = Inr resp"
    and "safe_parse_json loads (strip resp) \<noteq> JNull"
    and "py_iter (safe_parse_json loads (strip resp)) = Inr items"
    and "\<forall>o1 \<in> set (concat (map (keep_item paragraph_index) items)).
           hashable (dict_get o1 ''issue'')"
  shows "fst (check_clause loads g clause_text paragraph_index vs model)
         = simple_heuristic_checks clause_text paragraph_index
           @ filter (\<lambda>o1. dict_get o1 ''issue''
                        \<notin> set (issue_values (simple_heuristic_checks clause_text paragraph_index)))
               (concat (map (keep_item paragraph_index) items))"
proof -
  from assms(2-5)
  have "try_body loads g model (prompt_text (retrieve_context vs clause_text 4 None) clause_text)
          paragraph_index (simple_heuristic_checks clause_text paragraph_index)
        = (Inr (simple_heuristic_checks clause_text paragraph_index
                @ filter (\<lambda>o1. dict_get o1 ''issue''
                        \<notin> set (issue_values (simple_heuristic_checks clause_text paragraph_index)))
                    (concat (map (keep_item paragraph_index) items))),
           simple_heuristic_checks clause_text paragraph_index
                @ filter (\<lambda>o1. dict_get o1 ''issue''
                        \<notin> set (issue_values (simple_heuristic_checks clause_text paragraph_index)))
                    (concat (map (keep_item paragraph_index) items)))"
    by (simp add: try_body_def Let_def issue_texts_heuristic merge_out_filter)
  with assms(1) show ?thesis
    by (simp add: check_clause_after_try)
qed

text \<open>
  C1. \<open>check_clause\<close> with a configured key, on a clause whose only heuristic issue is the
  governing-law one, when the model answers two findings with the same \<open>issue\<close> text \<open>X\<close>:
  both findings are in the returned list, which therefore holds two elements with the
  same \<open>issue\<close> string. The second \<open>X\<close> is not dropped, because the set of known texts is
  built from the heuristic issues and never extended (\<open>check_clause_merge\<close>).
\<close>

theorem check_clause_repeats_model_finding:
  "key_configured (replying_service repeated_finding_reply)
   \<and> simple_heuristic_checks governed_clause 0 = [governing_law_issue 0]
   \<and> fst (check_clause json_loads (replying_service repeated_finding_reply) governed_clause 0
          empty_store ''gemini-pro'')
     = [governing_law_issue 0,
        [(''issue'', JStr ''X''), (''severity'', JStr ''Low''), (''suggestion'', JStr ''Y''),
         (''paragraph_index'', JInt 0)],
        [(''issue'', JStr ''X''), (''severity'', JStr ''Low''), (''suggestion'', JStr ''Z''),
         (''paragraph_index'', JInt 0)]]
   \<and> issue_values
         (fst (check_clause json_loads (replying_service repeated_finding_reply)
                 governed_clause 0 empty_store ''gemini-pro''))
     = [JStr ''Governing law clause present but does not specify ADGM.'', JStr ''X'', JStr ''X'']
   \<and> \<not> distinct (issue_values
         (fst (check_clause json_loads (replying_service repeated_finding_reply)
                 governed_clause 0 empty_store ''gemini-pro'')))"
  by code_simp

text \<open>
  C3, as the code has it. An exception of the index search in step 2 is caught inside
  \<open>retrieve_context\<close>, which then gives the empty context, and \<open>check_clause\<close> goes on to
  step 3 exactly as if the search had found nothing. An exception of the generative call
  in step 3 (a timeout among them) is caught in \<open>check_clause\<close>, which returns exactly the
  heuristic issues; so is the exception raised when the parsed response is a number or a
  boolean and cannot be iterated. \<open>check_clause\<close> returns a list in every case: no
  exception leaves it.
\<close>

theorem check_clause_failure_policy:
  "(similarity_search vs clause_text 4 = Inl e1 \<longrightarrow>
      retrieve_context vs clause_text 4 None = []
      \<and> fst (check_clause loads g clause_text paragraph_index vs model)
          = fst (check_clause loads g clause_text paragraph_index
                   (vs\<lparr>similarity_search := (\<lambda>query k. Inr [])\<rparr>) model))
   \<and> (generate_content g model system_text
          (prompt_text (retrieve_context vs clause_text 4 None) clause_text) = Inl e2 \<longrightarrow>
        fst (check_clause loads g clause_text paragraph_index vs model)
          = simple_heuristic_checks clause_text paragraph_index)
   \<and> (generate_content g model system_text
          (prompt_text (retrieve_context vs clause_text 4 None) clause_text) = Inr resp
        \<and> py_iter (safe_parse_json loads (strip resp)) = Inl e3 \<longrightarrow>
        fst (check_clause loads g clause_text paragraph_index vs model)
          = simple_heuristic_checks clause_text paragraph_index)"
proof (intro conjI impI)
  assume a: "similarity_search vs clause_text 4 = Inl e1"
  then show c: "retrieve_context vs clause_text 4 None = []"
    by (rule retrieve_context_search_raises)
  show "fst (check_clause loads g clause_text paragraph_index vs model)
          = fst (check_clause loads g clause_text paragraph_index
                   (vs\<lparr>similarity_search := (\<lambda>query k. Inr [])\<rparr>) model)"
    by (simp add: check_clause_def c retrieve_context_no_results)
next
  assume "generate_content g model system_text
            (prompt_text (retrieve_context vs clause_text 4 None) clause_text) = Inl e2"
  then show "fst (check_clause loads g clause_text paragraph_index vs model)
          = simple_heuristic_checks clause_text paragraph_index"
    by (cases "key_configured g") (simp_all add: check_clause_def Let_def try_body_call_raises)
next
  assume "generate_content g model system_text
            (prompt_text (retrieve_context vs clause_text 4 None) clause_text) = Inr resp
          \<and> py_iter (safe_parse_json loads (strip resp)) = Inl e3"
  then show "fst (check_clause loads g clause_text paragraph_index vs model)
          = simple_heuristic_checks clause_text paragraph_index"
    by (cases "key_configured g")
       (simp_all add: check_clause_after_try try_body_not_iterable, simp add: check_clause_def)
qed


theorem check_clause_failure_policy_witness:
  "similarity_search timeout_store governed_clause 4 = Inl TimeoutError
   \<and> retrieve_context timeout_store governed_clause 4 None = []
   \<and> generate_content timeout_service ''gemini-pro'' system_text
         (prompt_text (retrieve_context timeout_store governed_clause 4 None) governed_clause)
       = Inl TimeoutError
   \<and> fst (check_clause json_loads timeout_service governed_clause 0 timeout_store ''gemini-pro'')
       = [governing_law_issue 0]
   \<and> generate_content (replying_service number_reply) ''gemini-pro'' system_text
         (prompt_text (retrieve_context empty_store governed_clause 4 None) governed_clause)
       = Inr number_reply
   \<and> py_iter (safe_parse_json json_loads (strip number_reply)) = Inl TypeError
   \<and> fst (check_clause json_loads (replying_service number_reply) governed_clause 0
              empty_store ''gemini-pro'')
       = [governing_law_issue 0]"
proof -
  have a: "similarity_search timeout_store governed_clause 4 = Inl TimeoutError"
    by (simp add: timeout_store_def)
  have b: "generate_content timeout_service ''gemini-pro'' system_text
             (prompt_text (retrieve_context timeout_store governed_clause 4 None) governed_clause)
           = Inl TimeoutError"
    by (simp add: timeout_service_def)
  have c: "generate_content (replying_service number_reply) ''gemini-pro'' system_text
             (prompt_text (retrieve_context empty_store governed_clause 4 None) governed_clause)
           = Inr number_reply"
    by (simp add: replying_service_def)
  have d: "py_iter (safe_parse_json json_loads (strip number_reply)) = Inl TypeError"
    by code_simp
  have h: "simple_heuristic_checks governed_clause 0 = [governing_law_issue 0]"
    by code_simp
  note p1 = check_clause_failure_policy
         [of timeout_store governed_clause TimeoutError json_loads timeout_service 0
             "''gemini-pro''" TimeoutError number_reply TypeError]
  from p1 a have r: "retrieve_context timeout_store governed_clause 4 None = []"
    by blast
  from p1 b have "fst (check_clause json_loads timeout_service governed_clause 0 timeout_store
                         ''gemini-pro'') = simple_heuristic_checks governed_clause 0"
    by blast
  with h have 1: "fst (check_clause json_loads timeout_service governed_clause 0 timeout_store
                         ''gemini-pro'') = [governing_law_issue 0]"
    by simp
  note p2 = check_clause_failure_policy
         [of empty_store governed_clause TimeoutError json_loads "replying_service number_reply" 0
             "''gemini-pro''" TimeoutError number_reply TypeError]
  from p2 c d have "fst (check_clause json_loads (replying_service number_reply) governed_clause 0
                           empty_store ''gemini-pro'') = simple_heuristic_checks governed_clause 0"
    by blast
  with h have 2: "fst (check_clause json_loads (replying_service number_reply) governed_clause 0
                  empty_store ''gemini-pro'') = [governing_law_issue 0]"
    by simp
  from a b c d r 1 2 show ?thesis
    by blast
qed

text \<open>
  C3 as stated fails: after a search that raised, \<open>check_clause\<close> does not return the
  heuristic issues alone. It calls the generative service with the empty context and
  appends the finding the service answers.
\<close>

theorem check_clause_goes_on_after_search_timeout:
  "similarity_search timeout_store governed_clause 4 = Inl TimeoutError
   \<and> simple_heuristic_checks governed_clause 0 = [governing_law_issue 0]
   \<and> fst (check_clause json_loads (replying_service one_finding_reply) governed_clause 0
              timeout_store ''gemini-pro'')
       = [governing_law_issue 0, finding_X ''Y'' 0]
   \<and> fst (check_clause json_loads (replying_service one_finding_reply) governed_clause 0
              timeout_store ''gemini-pro'')
       \<noteq> simple_heuristic_checks governed_clause 0"
  by code_simp

text \<open>
  C10. When the tolerant parse of the model's response is a JSON object, the loop of
  \<open>check_clause\<close> runs over the keys of the object, which are strings; none of them is a
  dict, so nothing is kept, and the result is the list of the heuristic issues alone.
\<close>

theorem check_clause_object_reply_dropped:
  assumes "key_configured g"
    and "generate_content g model system_text
           (prompt_text (retrieve_context vs clause_text 4 None) clause_text) = Inr resp"
    and "safe_parse_json loads (strip resp) = JObj d"
  shows "py_iter (JObj d) = Inr (map (\<lambda>kv. JStr (fst kv)) d)
         \<and> (\<forall>it \<in> set (map (\<lambda>kv. JStr (fst kv)) d). keep_item paragraph_index it = [])
         \<and> fst (check_clause loads g clause_text paragraph_index vs model)
             = simple_heuristic_checks clause_text paragraph_index"
proof -
  have k: "\<forall>it \<in> set (map (\<lambda>kv. JStr (fst kv)) d). keep_item paragraph_index it = []"
    by auto
  have out: "concat (map (keep_item paragraph_index \<circ> (\<lambda>kv. JStr (fst kv))) d) = []"
    by (induction d) auto
  from assms(2,3)
  have "try_body loads g model (prompt_text (retrieve_context vs clause_text 4 None) clause_text)
          paragraph_index (simple_heuristic_checks clause_text paragraph_index)
        = (Inr (simple_heuristic_checks clause_text paragraph_index),
           simple_heuristic_checks clause_text paragraph_index)"
    by (simp add: try_body_def Let_def issue_texts_heuristic out)
  with assms(1) k show ?thesis
    by (simp add: check_clause_after_try)
qed

theorem check_clause_object_reply_dropped_witness:
  "key_configured (replying_service object_reply)
   \<and> safe_parse_json json_loads (strip object_reply)
       = JObj [(''issue'', JStr ''X''), (''severity'', JStr ''Low''), (''suggestion'', JStr ''Y'')]
   \<and> simple_heuristic_checks governed_clause 0 = [governing_law_issue 0]
   \<and> fst (check_clause json_loads (replying_service object_reply) governed_clause 0
              empty_store ''gemini-pro'')
       = [governing_law_issue 0]"
proof -
  have a: "key_configured (replying_service object_reply)"
    by (simp add: key_configured_def replying_service_def)
  have b: "generate_content (replying_service object_reply) ''gemini-pro'' system_text
             (prompt_text (retrieve_context empty_store governed_clause 4 None) governed_clause)
           = Inr object_reply"
    by (simp add: replying_service_def)
  have c: "safe_parse_json json_loads (strip object_reply)
           = JObj [(''issue'', JStr ''X''), (''severity'', JStr ''Low''),
                   (''suggestion'', JStr ''Y'')]"
    by code_simp
  have h: "simple_heuristic_checks governed_clause 0 = [governing_law_issue 0]"
    by code_simp
  from check_clause_object_reply_dropped [OF a b c, of 0] a c h show ?thesis
    by simp
qed

text \<open>
  C4. \<open>retrieve_context\<close> on a store that has \<open>similarity_search_with_relevance_scores\<close>, with
  the category filter \<open>Licensing\<close>: the context still holds the passage whose category is
  \<open>Employment\<close>, and it is the context of the call without a filter.
\<close>

theorem retrieve_context_keeps_other_category:
  "has_relevance_scores two_category_store
   \<and> retrieve_context two_category_store ''licence'' 4 (Some ''Licensing'')
       = ''Source: a.txt'' @ newline @ ''Passage on licensing.'' @ newline @ newline
         @ ''Source: b.txt'' @ newline @ ''Passage on employment.''
   \<and> retrieve_context two_category_store ''licence'' 4 (Some ''Licensing'')
       = retrieve_context two_category_store ''licence'' 4 None"
  by code_simp

subsection \<open>_safe_parse_json\<close>

lemma greedy_span_Some:
  assumes "greedy_span a b s = Some m"
  shows "\<exists>pre mid post. s = pre @ m @ post \<and> m = a # mid @ [b] \<and> a \<notin> set pre \<and> b \<notin> set post"
proof -
  from assms obtain c rest where d: "dropWhile (\<lambda>c. c \<noteq> a) s = c # rest"
    and b: "b \<in> set rest" and m: "m = c # rev (dropWhile (\<lambda>c. c \<noteq> b) (rev rest))"
    by (auto simp: greedy_span_def split: list.splits if_splits)
  from d have c: "c = a"
    using hd_dropWhile [of "\<lambda>c. c \<noteq> a" s] by force
  let ?pre = "takeWhile (\<lambda>c. c \<noteq> a) s"
  have s: "s = ?pre @ a # rest"
    using takeWhile_dropWhile_id [of "\<lambda>c. c \<noteq> a" s] d c by simp
  have pre: "a \<notin> set ?pre"
    by (auto dest: set_takeWhileD)
  let ?tail = "takeWhile (\<lambda>c. c \<noteq> b) (rev rest)"
  from b have "dropWhile (\<lambda>c. c \<noteq> b) (rev rest) \<noteq> []"
    by simp
  then obtain r where r: "dropWhile (\<lambda>c. c \<noteq> b) (rev rest) = b # r"
    using hd_dropWhile [of "\<lambda>c. c \<noteq> b" "rev rest"]
    by (cases "dropWhile (\<lambda>c. c \<noteq> b) (rev rest)") force+
  have "rev rest = ?tail @ b # r"
    using takeWhile_dropWhile_id [of "\<lambda>c. c \<noteq> b" "rev rest"] r by simp
  then have "rev (rev rest) = rev (?tail @ b # r)"
    by simp
  then have "rest = rev r @ [b] @ rev ?tail"
    by simp
  with s m c r have "s = ?pre @ m @ rev ?tail" "m = a # rev r @ [b]"
    by simp_all
  moreover have "b \<notin> set (rev ?tail)"
    by (auto dest: set_takeWhileD)
  ultimately show ?thesis
    using pre by blast
qed

lemma dropWhile_reaches:
  "\<exists>rest. dropWhile (\<lambda>c. c \<noteq> a) (pre @ a # mid @ b # post) = a # rest \<and> b \<in> set rest"
  by (induction pre) auto

lemma greedy_span_None:
  "greedy_span a b s = None \<longleftrightarrow> \<not> (\<exists>pre mid post. s = pre @ a # mid @ b # post)"
proof
  assume n: "greedy_span a b s = None"
  show "\<not> (\<exists>pre mid post. s = pre @ a # mid @ b # post)"
  proof
    assume "\<exists>pre mid post. s = pre @ a # mid @ b # post"
    then obtain pre mid post where s: "s = pre @ a # mid @ b # post"
      by blast
    from dropWhile_reaches [of a pre mid b post] s n show False
      by (auto simp: greedy_span_def)
  qed
next
  assume n: "\<not> (\<exists>pre mid post. s = pre @ a # mid @ b # post)"
  show "greedy_span a b s = None"
  proof (rule ccontr)
    assume "greedy_span a b s \<noteq> None"
    then obtain m where "greedy_span a b s = Some m" by auto
    from greedy_span_Some [OF this] obtain pre mid post where
      "s = pre @ m @ post" "m = a # mid @ [b]" by blast
    then have "s = pre @ a # mid @ b # post" by simp
    with n show False by blast
  qed
qed


lemma greedy_span_first_last:
  assumes "a \<notin> set pre" "b \<notin> set post"
  shows "greedy_span a b (pre @ a # mid @ b # post) = Some (a # mid @ [b])"
proof -
  from assms(1) have d: "dropWhile (\<lambda>c. c \<noteq> a) (pre @ a # mid @ b # post) = a # mid @ b # post"
    by (induction pre) auto
  from assms(2) have "dropWhile (\<lambda>c. c \<noteq> b) (rev post @ b # rev mid) = b # rev mid"
    by (induction post rule: rev_induct) auto
  then have "rev (dropWhile (\<lambda>c. c \<noteq> b) (rev (mid @ b # post))) = mid @ [b]"
    by simp
  with d show ?thesis
    by (simp add: greedy_span_def)
qed

text \<open>
  C5, as the code has it. Let the stripped response text be non-empty and fail the direct
  parse. The candidate is the array span, from the first \<open>[\<close> to the last \<open>]\<close> of the text
  (greedy matching, across newlines); only when the text has no \<open>[\<close> with a \<open>]\<close> after it,
  the candidate is the object span, from the first \<open>{\<close> to the last \<open>}\<close>. The candidate is
  parsed; when that fails it is parsed again after the comma repair; when that fails too,
  or when there is no span at all, the result is \<open>None\<close>.
\<close>

theorem safe_parse_json_stages:
  assumes "strip text0 = text" and "text \<noteq> []" and "loads text = Inl e"
  shows "(text = pre @ CHR ''['' # mid @ CHR '']'' # post
            \<and> CHR ''['' \<notin> set pre \<and> CHR '']'' \<notin> set post \<longrightarrow>
          safe_parse_json loads text0
            = (case loads (CHR ''['' # mid @ '']'') of
                 Inr v \<Rightarrow> v
               | Inl e1 \<Rightarrow>
                   (case loads (strip_trailing_commas (CHR ''['' # mid @ '']'')) of
                      Inr v \<Rightarrow> v
                    | Inl e2 \<Rightarrow> JNull)))
         \<and> ((\<nexists>p m q. text = p @ CHR ''['' # m @ CHR '']'' # q)
            \<and> text = pre @ CHR ''{'' # mid @ CHR ''}'' # post
            \<and> CHR ''{'' \<notin> set pre \<and> CHR ''}'' \<notin> set post \<longrightarrow>
          safe_parse_json loads text0
            = (case loads (CHR ''{'' # mid @ ''}'') of
                 Inr v \<Rightarrow> v
               | Inl e1 \<Rightarrow>
                   (case loads (strip_trailing_commas (CHR ''{'' # mid @ ''}'')) of
                      Inr v \<Rightarrow> v
                    | Inl e2 \<Rightarrow> JNull)))
         \<and> ((\<nexists>p m q. text = p @ CHR ''['' # m @ CHR '']'' # q)
            \<and> (\<nexists>p m q. text = p @ CHR ''{'' # m @ CHR ''}'' # q) \<longrightarrow>
          safe_parse_json loads text0 = JNull)"
proof (intro conjI impI)
  assume "text = pre @ CHR ''['' # mid @ CHR '']'' # post
          \<and> CHR ''['' \<notin> set pre \<and> CHR '']'' \<notin> set post"
  then have "greedy_span (CHR ''['') (CHR '']'') text = Some (CHR ''['' # mid @ '']'')"
    using greedy_span_first_last [of "CHR ''[''" pre "CHR '']''" post mid] by simp
  with assms show "safe_parse_json loads text0
            = (case loads (CHR ''['' # mid @ '']'') of
                 Inr v \<Rightarrow> v
               | Inl e1 \<Rightarrow>
                   (case loads (strip_trailing_commas (CHR ''['' # mid @ '']'')) of
                      Inr v \<Rightarrow> v
                    | Inl e2 \<Rightarrow> JNull))"
    by (simp add: safe_parse_json_def Let_def)
next
  assume a: "(\<nexists>p m q. text = p @ CHR ''['' # m @ CHR '']'' # q)
            \<and> text = pre @ CHR ''{'' # mid @ CHR ''}'' # post
            \<and> CHR ''{'' \<notin> set pre \<and> CHR ''}'' \<notin> set post"
  then have "\<not> (\<exists>p m q. text = p @ CHR ''['' # m @ CHR '']'' # q)"
    by blast
  then have "greedy_span (CHR ''['') (CHR '']'') text = None"
    by (rule greedy_span_None [THEN iffD2])
  moreover from a have "greedy_span (CHR ''{'') (CHR ''}'') text = Some (CHR ''{'' # mid @ ''}'')"
    using greedy_span_first_last [of "CHR ''{''" pre "CHR ''}''" post mid] by simp
  ultimately show "safe_parse_json loads text0
            = (case loads (CHR ''{'' # mid @ ''}'') of
                 Inr v \<Rightarrow> v
               | Inl e1 \<Rightarrow>
                   (case loads (strip_trailing_commas (CHR ''{'' # mid @ ''}'')) of
                      Inr v \<Rightarrow> v
                    | Inl e2 \<Rightarrow> JNull))"
    using assms by (simp add: safe_parse_json_def Let_def)
next
  assume "(\<nexists>p m q. text = p @ CHR ''['' # m @ CHR '']'' # q)
            \<and> (\<nexists>p m q. text = p @ CHR ''{'' # m @ CHR ''}'' # q)"
  then have "\<not> (\<exists>p m q. text = p @ CHR ''['' # m @ CHR '']'' # q)"
    "\<not> (\<exists>p m q. text = p @ CHR ''{'' # m @ CHR ''}'' # q)"
    by blast+
  then have "greedy_span (CHR ''['') (CHR '']'') text = None"
    "greedy_span (CHR ''{'') (CHR ''}'') text = None"
    by (simp_all only: greedy_span_None not_False_eq_True)
  with assms show "safe_parse_json loads text0 = JNull"
    by (simp add: safe_parse_json_def Let_def)
qed

theorem safe_parse_json_stages_witness:
  "strip trailing_comma_reply = trailing_comma_reply
   \<and> json_loads trailing_comma_reply = Inl JSONDecodeError
   \<and> safe_parse_json json_loads trailing_comma_reply
       = JArr [JObj [(''issue'', JStr ''X''), (''severity'', JStr ''Low''),
                     (''suggestion'', JStr ''Y''), (''citation'', JStr [])]]
   \<and> json_loads (strip object_with_comma_reply) = Inl JSONDecodeError
   \<and> safe_parse_json json_loads object_with_comma_reply = JObj [(''issue'', JStr ''X'')]
   \<and> json_loads (strip prose_reply) = Inl JSONDecodeError
   \<and> safe_parse_json json_loads prose_reply = JNull"
proof -
  let ?mid = "''{\"issue\":\"X\",\"severity\":\"Low\",\"suggestion\":\"Y\",\"citation\":\"\"},''"
  have a1: "strip trailing_comma_reply = trailing_comma_reply"
    by code_simp
  have a2: "trailing_comma_reply \<noteq> []"
    by code_simp
  have a3: "json_loads trailing_comma_reply = Inl JSONDecodeError"
    by code_simp
  have a4: "trailing_comma_reply = ''Here are the findings: '' @ CHR ''['' # ?mid @ CHR '']'' # []
            \<and> CHR ''['' \<notin> set ''Here are the findings: '' \<and> CHR '']'' \<notin> set []"
    by code_simp
  have a5: "(case json_loads (CHR ''['' # ?mid @ '']'') of
               Inr v \<Rightarrow> v
             | Inl e1 \<Rightarrow>
                 (case json_loads (strip_trailing_commas (CHR ''['' # ?mid @ '']'')) of
                    Inr v \<Rightarrow> v
                  | Inl e2 \<Rightarrow> JNull))
            = JArr [JObj [(''issue'', JStr ''X''), (''severity'', JStr ''Low''),
                     (''suggestion'', JStr ''Y''), (''citation'', JStr [])]]"
    by code_simp
  from safe_parse_json_stages
         [of trailing_comma_reply trailing_comma_reply json_loads JSONDecodeError
             "''Here are the findings: ''" ?mid "[]", OF a1 a2 a3] a4 a5
  have 1: "safe_parse_json json_loads trailing_comma_reply
       = JArr [JObj [(''issue'', JStr ''X''), (''severity'', JStr ''Low''),
                     (''suggestion'', JStr ''Y''), (''citation'', JStr [])]]"
    by simp
  let ?omid = "''\"issue\": \"X\", ''"
  have b1: "strip object_with_comma_reply = object_with_comma_reply"
    by code_simp
  have b2: "object_with_comma_reply \<noteq> []"
    by code_simp
  have b3: "json_loads object_with_comma_reply = Inl JSONDecodeError"
    by code_simp
  have "greedy_span (CHR ''['') (CHR '']'') object_with_comma_reply = None"
    by code_simp
  then have b4: "\<nexists>p m q. object_with_comma_reply = p @ CHR ''['' # m @ CHR '']'' # q"
    by (simp add: greedy_span_None)
  have b5: "object_with_comma_reply = ''Result: '' @ CHR ''{'' # ?omid @ CHR ''}'' # '' done''
            \<and> CHR ''{'' \<notin> set ''Result: '' \<and> CHR ''}'' \<notin> set '' done''"
    by code_simp
  have b6: "(case json_loads (CHR ''{'' # ?omid @ ''}'') of
               Inr v \<Rightarrow> v
             | Inl e1 \<Rightarrow>
                 (case json_loads (strip_trailing_commas (CHR ''{'' # ?omid @ ''}'')) of
                    Inr v \<Rightarrow> v
                  | Inl e2 \<Rightarrow> JNull))
            = JObj [(''issue'', JStr ''X'')]"
    by code_simp
  from safe_parse_json_stages
         [of object_with_comma_reply object_with_comma_reply json_loads JSONDecodeError
             "''Result: ''" ?omid "'' done''", OF b1 b2 b3] b4 b5 b6
  have 2: "safe_parse_json json_loads object_with_comma_reply = JObj [(''issue'', JStr ''X'')]"
    by simp
  have c1: "strip prose_reply = prose_reply"
    by code_simp
  have c2: "prose_reply \<noteq> []"
    by code_simp
  have c3: "json_loads prose_reply = Inl JSONDecodeError"
    by code_simp
  have "greedy_span (CHR ''['') (CHR '']'') prose_reply = None"
    "greedy_span (CHR ''{'') (CHR ''}'') prose_reply = None"
    by code_simp+
  then have c4: "(\<nexists>p m q. prose_reply = p @ CHR ''['' # m @ CHR '']'' # q)
                 \<and> (\<nexists>p m q. prose_reply = p @ CHR ''{'' # m @ CHR ''}'' # q)"
    by (simp add: greedy_span_None)
  from safe_parse_json_stages
         [of prose_reply prose_reply json_loads JSONDecodeError "[]" "[]" "[]", OF c1 c2 c3] c4
  have 3: "safe_parse_json json_loads prose_reply = JNull"
    by blast
  from a1 a3 1 b1 b3 2 c1 c3 3 show ?thesis
    by simp
qed

text \<open>
  C5 as stated fails: on the text \<open>["a"] ["b"]\<close> the first \<open>[...]\<close> span by non-greedy
  matching is \<open>["a"]\<close>, which parses, and the extraction the specification words returns
  that array; \<open>_safe_parse_json\<close> takes the whole text as the span and returns \<open>None\<close>.
\<close>

theorem safe_parse_json_span_is_greedy:
  "json_loads (strip two_arrays_reply) = Inl JSONDecodeError
   \<and> nongreedy_span (CHR ''['') (CHR '']'') (strip two_arrays_reply) = Some ''[\"a\"]''
   \<and> json_loads ''[\"a\"]'' = Inr (JArr [JStr ''a''])
   \<and> spec_tolerant_extraction json_loads two_arrays_reply = JArr [JStr ''a'']
   \<and> greedy_span (CHR ''['') (CHR '']'') (strip two_arrays_reply) = Some two_arrays_reply
   \<and> safe_parse_json json_loads two_arrays_reply = JNull"
  by code_simp

end
